theory Spec2Isabelle
  imports Main
begin

section \<open>The network info page of raveberry (core/network\_info.py)\<close>

text \<open>
  The module shells out to \<^verbatim>\<open>ip\<close>, \<^verbatim>\<open>iwgetid\<close> and a password helper, parses their text
  output, encodes two payloads as QR codes and renders a template.

  Text is modelled as \<^typ>\<open>string\<close>: one \<^typ>\<open>char\<close> per code point, code points 0 to 255.
  What a request does to the outside world is an explicit log of events, threaded through
  every routine that invokes a process or the QR library; what the outside world answers is
  a parameter (the record \<open>world\<close>). An exception is a value \<open>Inl e\<close> of the result.
\<close>

subsection \<open>Python's string operations\<close>

text \<open>
  The whitespace of \<^verbatim>\<open>str.split()\<close> and \<^verbatim>\<open>str.strip()\<close> without arguments, on code points
  below 256: TAB, LF, VT, FF, CR, the separators FS, GS, RS, US, the space, NEL (0x85) and
  the no-break space (0xA0).
\<close>

definition is_space :: "char \<Rightarrow> bool" where
  "is_space c = (let n = (of_char c :: nat) in
     (9 \<le> n \<and> n \<le> 13) \<or> (28 \<le> n \<and> n \<le> 32) \<or> n = 133 \<or> n = 160)"

text \<open>
  \<^verbatim>\<open>s.split()\<close>: runs of whitespace separate the words, and no word is empty. Whitespace
  is skipped one character at a time; at any other character the word runs up to the next
  whitespace, and the scan goes on behind it.
\<close>

function split_ws :: "string \<Rightarrow> string list" where
  "split_ws [] = []"
| "split_ws (c # cs) =
     (if is_space c then split_ws cs
      else takeWhile (\<lambda>x. \<not> is_space x) (c # cs)
             # split_ws (dropWhile (\<lambda>x. \<not> is_space x) cs))"
  by pat_completeness auto
termination
  by (relation "measure length") (auto simp: less_Suc_eq_le length_dropWhile_le)

declare split_ws.simps [simp del]

text \<open>
  \<^verbatim>\<open>s.split(sep)\<close> for a separator of one character: every occurrence separates, fields
  may be empty, and there is always at least one field.
\<close>

fun split_on :: "char \<Rightarrow> string \<Rightarrow> string list" where
  "split_on sep [] = [[]]"
| "split_on sep (c # cs) =
     (if c = sep then [] # split_on sep cs
      else (case split_on sep cs of [] \<Rightarrow> [[c]] | w # ws \<Rightarrow> (c # w) # ws))"

text \<open>\<^verbatim>\<open>s.strip()\<close>: whitespace is removed at both ends.\<close>

definition strip :: "string \<Rightarrow> string" where
  "strip s = rev (dropWhile is_space (rev (dropWhile is_space s)))"

text \<open>\<^verbatim>\<open>s.startswith(p)\<close>.\<close>

definition startswith :: "string \<Rightarrow> string \<Rightarrow> bool" where
  "startswith s p = (take (length p) s = p)"

subsection \<open>Exceptions, processes and events\<close>

text \<open>
  The exceptions a request can end with. \<open>CalledProcessError\<close> carries the exit status;
  \<open>OSError\<close> stands for a command that could not be started; \<open>QRError\<close> for an exception of
  the QR library; \<open>TypeError\<close> for an argument vector that holds \<^verbatim>\<open>None\<close>.
\<close>

datatype error =
    CalledProcessError int
  | OSError
  | ValueError string
  | IndexError
  | TypeError
  | QRError

text \<open>What running a command gives: its exit status and its output, or no process at all.\<close>

datatype proc_result = Exited int string | NotStarted

datatype event = Exec "string list" | QREncode string

text \<open>A value stored in the template context.\<close>

datatype pyval = PyNone | PyStr string | PyOpaque nat

type_synonym template_context = "string \<rightharpoonup> pyval"

datatype response = Redirect string | Render string template_context

text \<open>
  The collaborators of the module, which are not part of it: the admin check of the user
  manager, the base context of the application, the operating system's answer to an
  argument vector, and the SVG document the QR library writes for a payload, or the
  exception it raises. A request runs no argument vector twice, so one answer for each
  vector is all a request can see.
\<close>

record world =
  is_admin :: bool
  base_context :: template_context
  run :: "string list \<Rightarrow> proc_result"
  qr_svg :: "string \<Rightarrow> error + string"

text \<open>A Python list read at an index: out of range raises.\<close>

definition nth_py :: "'a list \<Rightarrow> nat \<Rightarrow> error + 'a" where
  "nth_py xs i = (if i < length xs then Inr (xs ! i) else Inl IndexError)"

text \<open>\<^verbatim>\<open>subprocess.check_output(argv, universal_newlines=True)\<close>: a non-zero exit raises.\<close>

definition check_output ::
  "world \<Rightarrow> string list \<Rightarrow> event list \<Rightarrow> (error + string) \<times> event list" where
  "check_output w argv log =
     (case run w argv of
        NotStarted \<Rightarrow> (Inl OSError, log @ [Exec argv])
      | Exited rc out \<Rightarrow>
          (if rc = 0 then (Inr out, log @ [Exec argv])
           else (Inl (CalledProcessError rc), log @ [Exec argv])))"

text \<open>How an f-string prints a value that may be \<^verbatim>\<open>None\<close>.\<close>

definition fmt :: "string option \<Rightarrow> string" where
  "fmt v = (case v of None \<Rightarrow> ''None'' | Some s \<Rightarrow> s)"

definition py_of :: "string option \<Rightarrow> pyval" where
  "py_of v = (case v of None \<Rightarrow> PyNone | Some s \<Rightarrow> PyStr s)"

subsection \<open>The default device\<close>

text \<open>
  The loop of \<^verbatim>\<open>_get_default_device\<close>, lines 36 to 38, over the pairs of
  \<^verbatim>\<open>zip(words, words[1:])\<close>, with the variable \<^verbatim>\<open>device\<close> as its state.
\<close>

definition device_loop :: "(string \<times> string) list \<Rightarrow> string option \<Rightarrow> string option" where
  "device_loop pairs device0 =
     foldl (\<lambda>device (cur, nex). if cur = ''dev'' then Some nex else device) device0 pairs"

text \<open>
  \<^verbatim>\<open>_get_default_device\<close>, lines 34 to 41: what the routine does with the output of the
  route command; \<^verbatim>\<open>not device\<close> holds of \<^verbatim>\<open>None\<close> and of the empty string.
\<close>

definition default_device_of_output :: "string \<Rightarrow> error + string" where
  "default_device_of_output output =
     (let words = split_ws output;
          device = device_loop (zip words (drop 1 words)) None
      in case device of
           None \<Rightarrow> Inl (ValueError ''No default device found'')
         | Some d \<Rightarrow>
             if d = [] then Inl (ValueError ''No default device found'') else Inr d)"

definition get_default_device ::
  "world \<Rightarrow> event list \<Rightarrow> (error + string) \<times> event list" where
  "get_default_device w log =
     (case check_output w (split_ws ''ip route show default'') log of
        (Inl e, log') \<Rightarrow> (Inl e, log')
      | (Inr output, log') \<Rightarrow> (default_device_of_output output, log'))"

subsection \<open>The address of a device\<close>

text \<open>
  The loop of \<^verbatim>\<open>_ip_of_device\<close>, lines 48 to 53, over the lines that are left: a line
  that does not start with \<^verbatim>\<open>inet\<close> once stripped is skipped, the first other line ends
  the loop, with its second field up to the first slash or with the \<^verbatim>\<open>IndexError\<close> of a
  missing field.
\<close>

fun ip_loop :: "string list \<Rightarrow> error + string option" where
  "ip_loop [] = Inr None"
| "ip_loop (line # rest) =
     (let line' = strip line in
      if \<not> startswith line' ''inet'' then ip_loop rest
      else (case nth_py (split_ws line') 1 of
              Inl e \<Rightarrow> Inl e
            | Inr field \<Rightarrow>
                (case nth_py (split_on CHR ''/'' field) 0 of
                   Inl e \<Rightarrow> Inl e
                 | Inr ip \<Rightarrow> Inr (Some ip))))"

text \<open>\<^verbatim>\<open>_ip_of_device\<close>, lines 47 to 56: what the routine does with the output.\<close>

definition ip_of_output :: "string \<Rightarrow> string \<Rightarrow> error + string" where
  "ip_of_output device output =
     (case ip_loop (split_on (CHR 0x0A) output) of
        Inl e \<Rightarrow> Inl e
      | Inr None \<Rightarrow> Inl (ValueError (''ip not found for '' @ device))
      | Inr (Some ip) \<Rightarrow>
          if ip = [] then Inl (ValueError (''ip not found for '' @ device)) else Inr ip)"

definition ip_of_device ::
  "world \<Rightarrow> string \<Rightarrow> event list \<Rightarrow> (error + string) \<times> event list" where
  "ip_of_device w device log =
     (case check_output w (split_ws (''ip -4 a show dev '' @ device)) log of
        (Inl e, log') \<Rightarrow> (Inl e, log')
      | (Inr output, log') \<Rightarrow> (ip_of_output device output, log'))"

subsection \<open>QR codes\<close>

text \<open>
  \<^verbatim>\<open>_qr_path\<close>: the library encodes the data, and the routine returns the second line of
  the SVG document, or raises what the library raised, or the \<^verbatim>\<open>IndexError\<close> of a document
  of one line.
\<close>

definition qr_tag :: "world \<Rightarrow> string \<Rightarrow> error + string" where
  "qr_tag w data =
     (case qr_svg w data of
        Inl e \<Rightarrow> Inl e
      | Inr svg \<Rightarrow> nth_py (split_on (CHR 0x0A) svg) 1)"

text \<open>The call of \<^verbatim>\<open>_qr_path\<close>, with the event that the library was asked to encode.\<close>

definition qr_path ::
  "world \<Rightarrow> string \<Rightarrow> event list \<Rightarrow> (error + string) \<times> event list" where
  "qr_path w data log = (qr_tag w data, log @ [QREncode data])"

subsection \<open>The page\<close>

text \<open>
  \<^verbatim>\<open>index\<close>, lines 80 to 88: the Wi-Fi status command. Its output without the last
  character is the SSID; a non-zero exit is caught, any other exception is not. The result
  is the pair of the variables \<^verbatim>\<open>ssid\<close> and \<^verbatim>\<open>wifi_active\<close>.
\<close>

definition wifi_status ::
  "world \<Rightarrow> event list \<Rightarrow> (error + string option \<times> bool) \<times> event list" where
  "wifi_status w log =
     (case check_output w (split_ws ''/sbin/iwgetid --raw'') log of
        (Inl (CalledProcessError rc), log') \<Rightarrow> (Inr (None, False), log')
      | (Inl e, log') \<Rightarrow> (Inl e, log')
      | (Inr out, log') \<Rightarrow> (Inr (Some (butlast out), True), log'))"

text \<open>
  \<^verbatim>\<open>index\<close>, lines 93 to 100: the password helper, run only when Wi-Fi is active. The
  result is the variable \<^verbatim>\<open>password\<close>.
\<close>

definition wifi_password ::
  "world \<Rightarrow> string option \<Rightarrow> bool \<Rightarrow> event list \<Rightarrow> (error + string option) \<times> event list" where
  "wifi_password w ssid wifi_active log =
     (if wifi_active then
        (case ssid of
           None \<Rightarrow> (Inl TypeError, log)
         | Some s \<Rightarrow>
             (case check_output w
                     [''sudo'', ''/usr/local/sbin/raveberry/password_for_ssid'', s] log of
                (Inl (CalledProcessError rc), log') \<Rightarrow> (Inr None, log')
              | (Inl e, log') \<Rightarrow> (Inl e, log')
              | (Inr out, log') \<Rightarrow> (Inr (Some out), log')))
      else (Inr None, log))"

text \<open>\<^verbatim>\<open>index\<close>, lines 102 to 117: the QR codes, the context and the rendering.\<close>

definition build_page ::
  "world \<Rightarrow> template_context \<Rightarrow> string option \<Rightarrow> string option \<Rightarrow> bool \<Rightarrow> string \<Rightarrow> event list
     \<Rightarrow> (error + response) \<times> event list" where
  "build_page w ctx ssid password wifi_active ip log =
     (case qr_path w (''WIFI:S:'' @ fmt ssid @ '';T:WPA;P:'' @ fmt password @ '';;'') log of
        (Inl e, log1) \<Rightarrow> (Inl e, log1)
      | (Inr wifi_qr, log1) \<Rightarrow>
          (let raveberry_url = ''http://'' @ ip @ ''/'' in
           case qr_path w raveberry_url log1 of
             (Inl e, log2) \<Rightarrow> (Inl e, log2)
           | (Inr raveberry_qr, log2) \<Rightarrow>
               (let ctx1 =
                      (if wifi_active then
                         ctx(''ssid'' \<mapsto> py_of ssid, ''password'' \<mapsto> py_of password,
                                 ''wifi_qr'' \<mapsto> PyStr wifi_qr)
                       else
                         ctx(''ssid'' \<mapsto> PyNone, ''password'' \<mapsto> PyNone,
                                 ''wifi_qr'' \<mapsto> PyNone));
                    ctx2 =
                      ctx1(''raveberry_url'' \<mapsto> PyStr raveberry_url,
                               ''raveberry_qr'' \<mapsto> PyStr raveberry_qr,
                               ''ip'' \<mapsto> PyStr ip)
                in (Inr (Render ''network_info.html'' ctx2), log2))))"

text \<open>\<^verbatim>\<open>index\<close>: the request handler, from an empty log.\<close>

definition index :: "world \<Rightarrow> (error + response) \<times> event list" where
  "index w =
     (if \<not> is_admin w then (Inr (Redirect ''login''), [])
      else
        (let ctx = base_context w in
         case wifi_status w [] of
           (Inl e, log1) \<Rightarrow> (Inl e, log1)
         | (Inr (ssid, wifi_active), log1) \<Rightarrow>
             (case get_default_device w log1 of
                (Inl e, log2) \<Rightarrow> (Inl e, log2)
              | (Inr device, log2) \<Rightarrow>
                  (case ip_of_device w device log2 of
                     (Inl e, log3) \<Rightarrow> (Inl e, log3)
                   | (Inr ip, log3) \<Rightarrow>
                       (case wifi_password w ssid wifi_active log3 of
                          (Inl e, log4) \<Rightarrow> (Inl e, log4)
                        | (Inr password, log4) \<Rightarrow>
                            build_page w ctx ssid password wifi_active ip log4)))))"

subsection \<open>Notions of the specification\<close>

text \<open>
  The specification speaks of the first line that begins with \<^verbatim>\<open>inet\<close> once trimmed, and of
  a field with its \<^verbatim>\<open>/<prefix-length>\<close> suffix stripped. Both are written here after its words,
  to be compared with what \<open>ip_of_output\<close> computes.
\<close>

definition first_inet_line :: "string \<Rightarrow> string option" where
  "first_inet_line output =
     List.find (\<lambda>l. startswith l ''inet'') (map strip (split_on (CHR 0x0A) output))"

definition strip_prefix_length :: "string \<Rightarrow> string" where
  "strip_prefix_length field = takeWhile (\<lambda>c. c \<noteq> CHR ''/'') field"

text \<open>
  In a log, \<open>a\<close> occurs before \<open>b\<close>: some occurrence of \<open>a\<close> has an occurrence of \<open>b\<close>
  behind it.
\<close>

fun occurs_before :: "event \<Rightarrow> event \<Rightarrow> event list \<Rightarrow> bool" where
  "occurs_before a b [] = False"
| "occurs_before a b (x # xs) = ((x = a \<and> b \<in> set xs) \<or> occurs_before a b xs)"

text \<open>What a request stored under a key of the template context, if it rendered the page.\<close>

definition context_value :: "(error + response) \<times> event list \<Rightarrow> string \<Rightarrow> pyval option" where
  "context_value r key =
     (case fst r of
        Inr (Render template ctx) \<Rightarrow> ctx key
      | Inr (Redirect target) \<Rightarrow> None
      | Inl e \<Rightarrow> None)"

subsection \<open>A host to run the page on\<close>

text \<open>
  A host with a wired and a wireless default route, the wireless one listed last, and two
  addresses on the wireless device. The Wi-Fi status command and the password helper answer
  as the two parameters say, the helper whatever the SSID is; the QR library writes a
  document whose second line holds the payload without its line feeds.
\<close>

definition route_example :: string where
  "route_example =
     ''default via 192.168.1.1 dev eth0'' @ [CHR 0x0A]
     @ ''default via 192.168.1.1 dev wlan0 metric 600'' @ [CHR 0x0A]"

definition addr_example :: string where
  "addr_example =
     ''3: wlan0: <UP> mtu 1500'' @ [CHR 0x0A]
     @ ''    inet 192.168.1.5/24 brd 192.168.1.255 scope global wlan0'' @ [CHR 0x0A]
     @ ''    inet 10.0.0.7/8 scope global secondary wlan0'' @ [CHR 0x0A]"

definition example_world :: "bool \<Rightarrow> proc_result \<Rightarrow> proc_result \<Rightarrow> world" where
  "example_world admin iwgetid helper =
     \<lparr> is_admin = admin,
       base_context = [''base'' \<mapsto> PyOpaque 0],
       run = (\<lambda>argv.
         if argv = [''/sbin/iwgetid'', ''--raw''] then iwgetid
         else if argv = [''ip'', ''route'', ''show'', ''default''] then Exited 0 route_example
         else if argv = [''ip'', ''-4'', ''a'', ''show'', ''dev'', ''wlan0'']
           then Exited 0 addr_example
         else if butlast argv = [''sudo'', ''/usr/local/sbin/raveberry/password_for_ssid'']
           then helper
         else NotStarted),
       qr_svg = (\<lambda>data.
         Inr (''<?xml?>'' @ [CHR 0x0A] @ ''<path d='' @ filter (\<lambda>c. c \<noteq> CHR 0x0A) data
                @ ''/>'' @ [CHR 0x0A])) \<rparr>"

section \<open>Properties of the parsing routines\<close>

subsection \<open>Words\<close>

lemma split_ws_nonempty: "w \<in> set (split_ws s) \<Longrightarrow> w \<noteq> []"
  by (induction s rule: split_ws.induct) (auto simp: split_ws.simps split: if_splits)

lemma split_ws_no_space: "w \<in> set (split_ws s) \<Longrightarrow> c \<in> set w \<Longrightarrow> \<not> is_space c"
  by (induction s rule: split_ws.induct)
     (auto simp: split_ws.simps split: if_splits dest: set_takeWhileD)

lemma takeWhile_stop: "\<not> P y \<Longrightarrow> takeWhile P (xs @ y # ys) = takeWhile P xs"
  by (induction xs) auto

lemma dropWhile_stop: "\<not> P y \<Longrightarrow> dropWhile P (xs @ y # ys) = dropWhile P xs @ y # ys"
  by (induction xs) auto

lemma split_ws_at_space:
  "is_space s \<Longrightarrow> split_ws (p @ s # q) = split_ws p @ split_ws q"
proof (induction p rule: split_ws.induct)
  case 1
  then show ?case by (simp add: split_ws.simps)
next
  case (2 c cs)
  show ?case
  proof (cases "is_space c")
    case True
    with 2 show ?thesis by (simp add: split_ws.simps)
  next
    case False
    have tw: "takeWhile (\<lambda>x. \<not> is_space x) (c # cs @ s # q)
                = takeWhile (\<lambda>x. \<not> is_space x) (c # cs)"
      using takeWhile_stop [of "\<lambda>x. \<not> is_space x" s "c # cs" q] 2(3) by simp
    have dw: "dropWhile (\<lambda>x. \<not> is_space x) (cs @ s # q)
                = dropWhile (\<lambda>x. \<not> is_space x) cs @ s # q"
      using 2(3) by (simp add: dropWhile_stop)
    show ?thesis
      using False 2(2) [OF False 2(3)] tw dw by (simp add: split_ws.simps)
  qed
qed

lemma split_ws_word:
  assumes "w \<noteq> []" and "\<forall>c\<in>set w. \<not> is_space c"
  shows "split_ws w = [w]"
proof -
  obtain c cs where w: "w = c # cs" using assms(1) by (cases w) auto
  have t: "takeWhile (\<lambda>x. \<not> is_space x) (c # cs) = c # cs"
    using assms(2) w by (simp add: takeWhile_eq_all_conv)
  have d: "dropWhile (\<lambda>x. \<not> is_space x) cs = []"
    using assms(2) w by simp
  have "split_ws (c # cs) =
          takeWhile (\<lambda>x. \<not> is_space x) (c # cs)
            # split_ws (dropWhile (\<lambda>x. \<not> is_space x) cs)"
    using assms(2) w by (simp add: split_ws.simps)
  also have "\<dots> = (c # cs) # split_ws []"
    unfolding t d ..
  finally show ?thesis using w by (simp add: split_ws.simps)
qed

subsection \<open>The loop over the pairs of words\<close>

lemma device_loop_Nil: "device_loop [] d = d"
  by (simp add: device_loop_def)

lemma device_loop_Cons:
  "device_loop (p # ps) d = device_loop ps (if fst p = ''dev'' then Some (snd p) else d)"
  by (cases p) (simp add: device_loop_def)

lemma device_loop_append: "device_loop (ps @ qs) d = device_loop qs (device_loop ps d)"
  by (simp add: device_loop_def)

lemma device_loop_no_dev: "\<forall>p\<in>set ps. fst p \<noteq> ''dev'' \<Longrightarrow> device_loop ps d = d"
  by (induction ps arbitrary: d) (simp_all add: device_loop_Nil device_loop_Cons)

lemma device_loop_Some:
  "device_loop ps d = Some x \<Longrightarrow> x \<in> snd ` set ps \<or> d = Some x"
  by (induction ps arbitrary: d) (auto simp: device_loop_Nil device_loop_Cons split: if_splits)

lemma device_loop_last:
  assumes "i < length ps" and "fst (ps ! i) = ''dev''"
    and "\<forall>j. i < j \<and> j < length ps \<longrightarrow> fst (ps ! j) \<noteq> ''dev''"
  shows "device_loop ps d = Some (snd (ps ! i))"
proof -
  have parts: "ps = take i ps @ ps ! i # drop (Suc i) ps"
    using assms(1) by (rule id_take_nth_drop)
  have "\<forall>p\<in>set (drop (Suc i) ps). fst p \<noteq> ''dev''"
  proof
    fix p assume "p \<in> set (drop (Suc i) ps)"
    then obtain k where k: "k < length (drop (Suc i) ps)" "p = drop (Suc i) ps ! k"
      by (auto simp: in_set_conv_nth)
    then have "p = ps ! (Suc i + k)" and "Suc i + k < length ps" by auto
    with assms(3) show "fst p \<noteq> ''dev''" by auto
  qed
  then have behind: "device_loop (drop (Suc i) ps) e = e" for e
    by (rule device_loop_no_dev)
  have "device_loop ps d = device_loop (take i ps @ ps ! i # drop (Suc i) ps) d"
    using parts by simp
  also have "\<dots> = Some (snd (ps ! i))"
    by (simp add: device_loop_append device_loop_Cons behind assms(2))
  finally show ?thesis .
qed

lemma default_device_is_word:
  assumes "default_device_of_output output = Inr dev"
  shows "dev \<in> set (split_ws output)"
proof -
  let ?ps = "zip (split_ws output) (drop 1 (split_ws output))"
  have "device_loop ?ps None = Some dev"
    using assms
    by (auto simp: default_device_of_output_def Let_def split: option.splits if_splits)
  then have "dev \<in> snd ` set ?ps"
    using device_loop_Some by fastforce
  then show ?thesis
    by (auto dest!: set_zip_rightD in_set_dropD)
qed

lemma addr_argv:
  assumes "default_device_of_output output = Inr dev"
  shows "split_ws (''ip -4 a show dev '' @ dev) = [''ip'', ''-4'', ''a'', ''show'', ''dev'', dev]"
proof -
  have m: "dev \<in> set (split_ws output)" using assms by (rule default_device_is_word)
  have w: "split_ws dev = [dev]"
    using split_ws_nonempty [OF m] split_ws_no_space [OF m] by (intro split_ws_word) auto
  have sp: "is_space CHR '' ''" by (simp add: is_space_def)
  have "''ip -4 a show dev '' @ dev = ''ip -4 a show dev'' @ CHR '' '' # dev" by simp
  then have "split_ws (''ip -4 a show dev '' @ dev)
               = split_ws ''ip -4 a show dev'' @ split_ws dev"
    using split_ws_at_space [OF sp, of "''ip -4 a show dev''" dev] by simp
  also have "split_ws ''ip -4 a show dev'' = [''ip'', ''-4'', ''a'', ''show'', ''dev'']"
    by (simp add: split_ws.simps is_space_def)
  finally show ?thesis using w by simp
qed

subsection \<open>The loop over the lines\<close>

lemma split_on_not_Nil: "split_on sep s \<noteq> []"
  by (induction s) (auto split: list.splits)

lemma hd_split_on: "hd (split_on sep s) = takeWhile (\<lambda>c. c \<noteq> sep) s"
  using split_on_not_Nil [of sep]
  by (induction s) (auto split: list.splits)

lemma nth_py_split_on_0: "nth_py (split_on sep s) 0 = Inr (takeWhile (\<lambda>c. c \<noteq> sep) s)"
  using split_on_not_Nil [of sep s] hd_split_on [of sep s]
  by (simp add: nth_py_def hd_conv_nth)

lemma ip_loop_no_inet:
  "\<forall>l\<in>set lines. \<not> startswith (strip l) ''inet'' \<Longrightarrow> ip_loop lines = Inr None"
  by (induction lines) (simp_all add: Let_def)

text \<open>A first \<^verbatim>\<open>inet\<close> line without a second field ends the routine with an \<^verbatim>\<open>IndexError\<close>.\<close>

lemma ip_loop_missing_field:
  "List.find (\<lambda>l. startswith l ''inet'') (map strip lines) = Some l \<Longrightarrow>
   length (split_ws l) \<le> 1 \<Longrightarrow> ip_loop lines = Inl IndexError"
  by (induction lines) (auto simp: Let_def nth_py_def)

lemma ip_loop_find:
  "List.find (\<lambda>l. startswith l ''inet'') (map strip lines) = Some l \<Longrightarrow>
   ip_loop lines =
     (case nth_py (split_ws l) 1 of
        Inl e \<Rightarrow> Inl e
      | Inr field \<Rightarrow> Inr (Some (strip_prefix_length field)))"
  by (induction lines)
     (auto simp: Let_def nth_py_split_on_0 strip_prefix_length_def split: sum.splits)

section \<open>Properties of the request handler\<close>

subsection \<open>The steps of the page\<close>

lemma wifi_status_exited:
  "run w [''/sbin/iwgetid'', ''--raw''] = Exited rc out \<Longrightarrow>
   wifi_status w log =
     (Inr (if rc = 0 then (Some (butlast out), True) else (None, False)),
      log @ [Exec [''/sbin/iwgetid'', ''--raw'']])"
  by (simp add: wifi_status_def check_output_def split_ws.simps is_space_def)

lemma get_default_device_log:
  "snd (get_default_device w log) = log @ [Exec [''ip'', ''route'', ''show'', ''default'']]"
  by (simp add: get_default_device_def check_output_def split_ws.simps is_space_def
           split: proc_result.splits)

lemma get_default_device_exited:
  "run w [''ip'', ''route'', ''show'', ''default''] = Exited 0 ro \<Longrightarrow>
   get_default_device w log =
     (default_device_of_output ro, log @ [Exec [''ip'', ''route'', ''show'', ''default'']])"
  by (simp add: get_default_device_def check_output_def split_ws.simps is_space_def)

lemma ip_of_device_log:
  "snd (ip_of_device w d log) = log @ [Exec (split_ws (''ip -4 a show dev '' @ d))]"
  by (simp add: ip_of_device_def check_output_def split: proc_result.splits)

lemma ip_of_device_exited:
  "run w (split_ws (''ip -4 a show dev '' @ d)) = Exited 0 ao \<Longrightarrow>
   ip_of_device w d log =
     (ip_of_output d ao, log @ [Exec (split_ws (''ip -4 a show dev '' @ d))])"
  by (simp add: ip_of_device_def check_output_def)

lemma wifi_password_inactive: "wifi_password w ssid False log = (Inr None, log)"
  by (simp add: wifi_password_def)

lemma wifi_password_exited:
  "run w [''sudo'', ''/usr/local/sbin/raveberry/password_for_ssid'', s] = Exited prc pout \<Longrightarrow>
   wifi_password w (Some s) True log =
     (Inr (if prc = 0 then Some pout else None),
      log @ [Exec [''sudo'', ''/usr/local/sbin/raveberry/password_for_ssid'', s]])"
  by (simp add: wifi_password_def check_output_def)

lemma wifi_password_log:
  "\<exists>es. snd (wifi_password w ssid active log) = log @ es
     \<and> (\<forall>e\<in>set es. \<exists>s. e = Exec [''sudo'', ''/usr/local/sbin/raveberry/password_for_ssid'', s])"
  by (auto simp: wifi_password_def check_output_def
           split: option.splits proc_result.splits)

lemma build_page_log:
  "snd (build_page w ctx ssid password active ip log)
     = log @ QREncode (''WIFI:S:'' @ fmt ssid @ '';T:WPA;P:'' @ fmt password @ '';;'')
         # (case qr_tag w (''WIFI:S:'' @ fmt ssid @ '';T:WPA;P:'' @ fmt password @ '';;'') of
              Inl e \<Rightarrow> []
            | Inr wq \<Rightarrow> [QREncode (''http://'' @ ip @ ''/'')])"
  by (simp add: build_page_def qr_path_def Let_def split: sum.splits)

lemma build_page_ok:
  assumes "qr_tag w (''WIFI:S:'' @ fmt ssid @ '';T:WPA;P:'' @ fmt password @ '';;'') = Inr wq"
    and "qr_tag w (''http://'' @ ip @ ''/'') = Inr uq"
  shows "build_page w ctx ssid password active ip log =
     (Inr (Render ''network_info.html''
        (ctx(''ssid'' \<mapsto> (if active then py_of ssid else PyNone),
             ''password'' \<mapsto> (if active then py_of password else PyNone),
             ''wifi_qr'' \<mapsto> (if active then PyStr wq else PyNone),
             ''raveberry_url'' \<mapsto> PyStr (''http://'' @ ip @ ''/''),
             ''raveberry_qr'' \<mapsto> PyStr uq,
             ''ip'' \<mapsto> PyStr ip))),
      log @ [QREncode (''WIFI:S:'' @ fmt ssid @ '';T:WPA;P:'' @ fmt password @ '';;''),
             QREncode (''http://'' @ ip @ ''/'')])"
  using assms by (simp add: build_page_def qr_path_def Let_def)

text \<open>
  The probes of an admin request, when the Wi-Fi status command exits and the network
  probe succeeds: what is left is the construction of the page.
\<close>

lemma index_probes:
  assumes "is_admin w"
    and "run w [''/sbin/iwgetid'', ''--raw''] = Exited rc out"
    and "run w [''ip'', ''route'', ''show'', ''default''] = Exited 0 ro"
    and "default_device_of_output ro = Inr dev"
    and "run w [''ip'', ''-4'', ''a'', ''show'', ''dev'', dev] = Exited 0 ao"
    and "ip_of_output dev ao = Inr ip"
  shows "rc \<noteq> 0 \<Longrightarrow>
           index w = build_page w (base_context w) None None False ip
             [Exec [''/sbin/iwgetid'', ''--raw''], Exec [''ip'', ''route'', ''show'', ''default''],
              Exec [''ip'', ''-4'', ''a'', ''show'', ''dev'', dev]]"
    and "rc = 0 \<Longrightarrow>
         run w [''sudo'', ''/usr/local/sbin/raveberry/password_for_ssid'', butlast out]
           = Exited prc pout \<Longrightarrow>
           index w = build_page w (base_context w) (Some (butlast out))
             (if prc = 0 then Some pout else None) True ip
             [Exec [''/sbin/iwgetid'', ''--raw''], Exec [''ip'', ''route'', ''show'', ''default''],
              Exec [''ip'', ''-4'', ''a'', ''show'', ''dev'', dev],
              Exec [''sudo'', ''/usr/local/sbin/raveberry/password_for_ssid'', butlast out]]"
proof -
  have argv: "split_ws (''ip -4 a show dev '' @ dev) = [''ip'', ''-4'', ''a'', ''show'', ''dev'', dev]"
    using assms(4) by (rule addr_argv)
  have ipd: "ip_of_device w dev log
               = (Inr ip, log @ [Exec [''ip'', ''-4'', ''a'', ''show'', ''dev'', dev]])" for log
    using ip_of_device_exited [of w dev ao log, unfolded argv] assms(5,6) by simp
  have gdd: "get_default_device w log
               = (Inr dev, log @ [Exec [''ip'', ''route'', ''show'', ''default'']])" for log
    using get_default_device_exited [OF assms(3), of log] assms(4) by simp
  show "index w = build_page w (base_context w) None None False ip
             [Exec [''/sbin/iwgetid'', ''--raw''], Exec [''ip'', ''route'', ''show'', ''default''],
              Exec [''ip'', ''-4'', ''a'', ''show'', ''dev'', dev]]" if "rc \<noteq> 0"
    using that assms(1)
    by (simp add: index_def wifi_status_exited [OF assms(2)] gdd ipd wifi_password_inactive)
  show "index w = build_page w (base_context w) (Some (butlast out))
             (if prc = 0 then Some pout else None) True ip
             [Exec [''/sbin/iwgetid'', ''--raw''], Exec [''ip'', ''route'', ''show'', ''default''],
              Exec [''ip'', ''-4'', ''a'', ''show'', ''dev'', dev],
              Exec [''sudo'', ''/usr/local/sbin/raveberry/password_for_ssid'', butlast out]]"
    if "rc = 0"
      and "run w [''sudo'', ''/usr/local/sbin/raveberry/password_for_ssid'', butlast out]
             = Exited prc pout"
    using that(1) assms(1)
    by (simp add: index_def wifi_status_exited [OF assms(2)] gdd ipd
          wifi_password_exited [OF that(2)])
qed

lemma index_log:
  assumes "is_admin w"
    and "run w [''/sbin/iwgetid'', ''--raw''] = Exited rc out"
    and "run w [''ip'', ''route'', ''show'', ''default''] = Exited 0 ro"
    and "default_device_of_output ro = Inr dev"
  shows "\<exists>es. snd (index w) =
           Exec [''/sbin/iwgetid'', ''--raw''] # Exec [''ip'', ''route'', ''show'', ''default'']
             # Exec [''ip'', ''-4'', ''a'', ''show'', ''dev'', dev] # es
         \<and> Exec [''/sbin/iwgetid'', ''--raw''] \<notin> set es"
proof -
  let ?iw = "Exec [''/sbin/iwgetid'', ''--raw'']"
  let ?route = "Exec [''ip'', ''route'', ''show'', ''default'']"
  let ?addr = "Exec [''ip'', ''-4'', ''a'', ''show'', ''dev'', dev]"
  obtain ssid active where ws: "wifi_status w [] = (Inr (ssid, active), [?iw])"
    using wifi_status_exited [OF assms(2), of "[]"] by (cases "rc = 0") auto
  have gdd: "get_default_device w [?iw] = (Inr dev, [?iw, ?route])"
    using get_default_device_exited [OF assms(3), of "[?iw]"] assms(4) by simp
  have argv: "split_ws (''ip -4 a show dev '' @ dev) = [''ip'', ''-4'', ''a'', ''show'', ''dev'', dev]"
    using assms(4) by (rule addr_argv)
  obtain r3 where ipd: "ip_of_device w dev [?iw, ?route] = (r3, [?iw, ?route, ?addr])"
    using ip_of_device_log [of w dev "[?iw, ?route]", unfolded argv]
    by (cases "ip_of_device w dev [?iw, ?route]") auto
  show ?thesis
  proof (cases r3)
    case (Inl e)
    then have "snd (index w) = [?iw, ?route, ?addr]"
      using assms(1) by (simp add: index_def ws gdd ipd)
    then show ?thesis by simp
  next
    case (Inr ip)
    obtain es where pw_log: "snd (wifi_password w ssid active [?iw, ?route, ?addr])
                               = [?iw, ?route, ?addr] @ es"
      and pw_es: "\<forall>e\<in>set es. \<exists>s. e = Exec [''sudo'', ''/usr/local/sbin/raveberry/password_for_ssid'', s]"
      using wifi_password_log [of w ssid active "[?iw, ?route, ?addr]"] by blast
    obtain r4 where pw: "wifi_password w ssid active [?iw, ?route, ?addr]
                           = (r4, [?iw, ?route, ?addr] @ es)"
      using pw_log by (cases "wifi_password w ssid active [?iw, ?route, ?addr]") auto
    have no_iw: "?iw \<notin> set es" using pw_es by auto
    show ?thesis
    proof (cases r4)
      case (Inl e)
      then have "snd (index w) = [?iw, ?route, ?addr] @ es"
        using assms(1) Inr by (simp add: index_def ws gdd ipd pw)
      then show ?thesis using no_iw by simp
    next
      case (Inr password)
      have "snd (index w)
              = snd (build_page w (base_context w) ssid password active ip
                       ([?iw, ?route, ?addr] @ es))"
        using assms(1) Inr \<open>r3 = Inr ip\<close> by (simp add: index_def ws gdd ipd pw)
      then show ?thesis using no_iw
        by (simp add: build_page_log split: sum.splits)
    qed
  qed
qed

lemma occurs_before_Cons_self: "b \<in> set xs \<Longrightarrow> occurs_before a b (a # xs)"
  by simp

lemma occurs_before_absent: "b \<notin> set xs \<Longrightarrow> \<not> occurs_before a b xs"
  by (induction xs) auto


subsection \<open>The example host\<close>

lemma example_admin: "is_admin (example_world True iw h)"
  by (simp add: example_world_def)

lemma example_run_iwgetid: "run (example_world a iw h) [''/sbin/iwgetid'', ''--raw''] = iw"
  by (simp add: example_world_def)

lemma example_run_route:
  "run (example_world a iw h) [''ip'', ''route'', ''show'', ''default''] = Exited 0 route_example"
  by (simp add: example_world_def)

lemma example_run_addr:
  "run (example_world a iw h) [''ip'', ''-4'', ''a'', ''show'', ''dev'', ''wlan0'']
     = Exited 0 addr_example"
  by (simp add: example_world_def)

lemma example_run_helper:
  "run (example_world a iw h) [''sudo'', ''/usr/local/sbin/raveberry/password_for_ssid'', s] = h"
  by (simp add: example_world_def)

lemma example_route: "default_device_of_output route_example = Inr ''wlan0''"
  by (simp add: default_device_of_output_def device_loop_def route_example_def
        split_ws.simps is_space_def)

lemma example_addr: "ip_of_output ''wlan0'' addr_example = Inr ''192.168.1.5''"
  by (simp add: ip_of_output_def addr_example_def strip_def startswith_def nth_py_def
        split_ws.simps is_space_def)

lemma split_on_append_sep:
  "sep \<notin> set xs \<Longrightarrow> split_on sep (xs @ sep # ys) = xs # split_on sep ys"
  by (induction xs) auto

lemma example_qr_tag:
  "qr_tag (example_world a iw h) data
     = Inr (''<path d='' @ filter (\<lambda>c. c \<noteq> CHR 0x0A) data @ ''/>'')"
proof -
  let ?line = "''<path d='' @ filter (\<lambda>c. c \<noteq> CHR 0x0A) data @ ''/>''"
  have no_lf: "CHR 0x0A \<notin> set ?line" by simp
  have "split_on (CHR 0x0A) (''<?xml?>'' @ CHR 0x0A # ?line @ CHR 0x0A # [])
          = ''<?xml?>'' # split_on (CHR 0x0A) (?line @ CHR 0x0A # [])"
    by (rule split_on_append_sep) simp
  also have "split_on (CHR 0x0A) (?line @ CHR 0x0A # []) = ?line # split_on (CHR 0x0A) []"
    using no_lf by (rule split_on_append_sep)
  finally have "split_on (CHR 0x0A) (''<?xml?>'' @ CHR 0x0A # ?line @ CHR 0x0A # [])
                  = [''<?xml?>'', ?line, []]"
    by simp
  then show ?thesis
    by (simp add: qr_tag_def example_world_def nth_py_def)
qed

section \<open>The claims\<close>

text \<open>
  C1. On every output of the route command, the default device is the word behind the last
  word \<^verbatim>\<open>dev\<close> that has a word behind it: with the words of the output numbered from 0,
  if word \<open>i\<close> is \<^verbatim>\<open>dev\<close> and has a successor, and no later word with a successor is
  \<^verbatim>\<open>dev\<close>, the routine returns word \<open>i + 1\<close>.
\<close>

theorem default_device_last_match:
  assumes "words = split_ws output"
    and "i + 1 < length words" and "words ! i = ''dev''"
    and "\<forall>j. i < j \<and> j + 1 < length words \<longrightarrow> words ! j \<noteq> ''dev''"
  shows "default_device_of_output output = Inr (words ! (i + 1))"
proof -
  let ?ps = "zip words (drop 1 words)"
  have nth: "?ps ! j = (words ! j, words ! (j + 1))" if "j + 1 < length words" for j
    using that by simp
  have "device_loop ?ps None = Some (snd (?ps ! i))"
  proof (rule device_loop_last)
    show "i < length ?ps" using assms(2) by simp
    show "fst (?ps ! i) = ''dev''" using assms(2,3) by (simp add: nth)
    show "\<forall>j. i < j \<and> j < length ?ps \<longrightarrow> fst (?ps ! j) \<noteq> ''dev''"
      using assms(4) by (auto simp: nth)
  qed
  then have found: "device_loop ?ps None = Some (words ! (i + 1))"
    using assms(2) by (simp add: nth)
  have "words ! (i + 1) \<in> set (split_ws output)"
    using assms(1,2) by simp
  then have "words ! (i + 1) \<noteq> []" by (rule split_ws_nonempty)
  then show ?thesis
    using found assms(1) by (simp add: default_device_of_output_def)
qed

theorem default_device_last_match_witness:
  "split_ws route_example ! 3 = ''dev'' \<and> split_ws route_example ! 4 = ''eth0''
   \<and> split_ws route_example ! 8 = ''dev''
   \<and> default_device_of_output route_example = Inr ''wlan0''"
proof -
  have ws: "split_ws route_example =
      [''default'', ''via'', ''192.168.1.1'', ''dev'', ''eth0'',
       ''default'', ''via'', ''192.168.1.1'', ''dev'', ''wlan0'', ''metric'', ''600'']"
    by (simp add: route_example_def split_ws.simps is_space_def)
  have h2: "8 + 1 < length (split_ws route_example)" by (simp add: ws)
  have h3: "split_ws route_example ! 8 = ''dev''" by (simp add: ws)
  have h4: "\<forall>j. 8 < j \<and> j + 1 < length (split_ws route_example)
              \<longrightarrow> split_ws route_example ! j \<noteq> ''dev''"
  proof (intro allI impI)
    fix j assume "8 < j \<and> j + 1 < length (split_ws route_example)"
    then have "j = 9 \<or> j = 10" by (auto simp: ws)
    then show "split_ws route_example ! j \<noteq> ''dev''" by (auto simp: ws)
  qed
  from default_device_last_match [OF refl h2 h3 h4] show ?thesis by (simp add: ws)
qed

text \<open>
  C3. An output of the route command without the word \<^verbatim>\<open>dev\<close> makes the default device
  fail with the \<^verbatim>\<open>ValueError\<close> ``No default device found''; an output of the address
  command without a line that starts with \<^verbatim>\<open>inet\<close> once stripped makes the address fail
  with the \<^verbatim>\<open>ValueError\<close> ``ip not found for'' the device.
\<close>

theorem not_found_errors:
  "(''dev'' \<notin> set (split_ws route_output) \<longrightarrow>
      default_device_of_output route_output = Inl (ValueError ''No default device found''))
   \<and> ((\<forall>l\<in>set (split_on (CHR 0x0A) addr_output). \<not> startswith (strip l) ''inet'') \<longrightarrow>
      ip_of_output device addr_output = Inl (ValueError (''ip not found for '' @ device)))"
proof (intro conjI impI)
  assume "''dev'' \<notin> set (split_ws route_output)"
  then have "\<forall>p\<in>set (zip (split_ws route_output) (drop 1 (split_ws route_output))).
               fst p \<noteq> ''dev''"
    by (auto dest: set_zip_leftD)
  then have "device_loop (zip (split_ws route_output) (drop 1 (split_ws route_output))) None
               = None"
    by (rule device_loop_no_dev)
  then show "default_device_of_output route_output
               = Inl (ValueError ''No default device found'')"
    by (simp add: default_device_of_output_def)
next
  assume "\<forall>l\<in>set (split_on (CHR 0x0A) addr_output). \<not> startswith (strip l) ''inet''"
  then have "ip_loop (split_on (CHR 0x0A) addr_output) = Inr None"
    by (rule ip_loop_no_inet)
  then show "ip_of_output device addr_output
               = Inl (ValueError (''ip not found for '' @ device))"
    by (simp add: ip_of_output_def)
qed

theorem not_found_errors_witness:
  "''dev'' \<notin> set (split_ws ''unreachable default metric 5'')
   \<and> default_device_of_output ''unreachable default metric 5''
        = Inl (ValueError ''No default device found'')
   \<and> first_inet_line (''3: wlan0: <UP>'' @ [CHR 0x0A] @ ''  link/ether'') = None
   \<and> ip_of_output ''wlan0'' (''3: wlan0: <UP>'' @ [CHR 0x0A] @ ''  link/ether'')
        = Inl (ValueError ''ip not found for wlan0'')"
proof -
  have a: "''dev'' \<notin> set (split_ws ''unreachable default metric 5'')"
    by (simp add: split_ws.simps is_space_def)
  have b: "\<forall>l\<in>set (split_on (CHR 0x0A) (''3: wlan0: <UP>'' @ [CHR 0x0A] @ ''  link/ether'')).
             \<not> startswith (strip l) ''inet''"
    by (simp add: strip_def is_space_def startswith_def)
  have c: "first_inet_line (''3: wlan0: <UP>'' @ [CHR 0x0A] @ ''  link/ether'') = None"
    by (simp add: first_inet_line_def strip_def is_space_def startswith_def)
  show ?thesis
    using a b c
      not_found_errors [of "''unreachable default metric 5''"
        "''3: wlan0: <UP>'' @ [CHR 0x0A] @ ''  link/ether''" "''wlan0''"]
    by simp
qed

text \<open>
  C2, as the code has it. When the output of the address command has a line that starts
  with \<^verbatim>\<open>inet\<close> once stripped, and the first such line has a second field, only that line
  counts: the routine returns the second field up to its first slash when that part is not
  empty, and fails with the \<^verbatim>\<open>ValueError\<close> ``ip not found for'' the device when it is
  empty. Later lines are not looked at.
\<close>

theorem ip_first_match:
  assumes "first_inet_line output = Some l"
    and "1 < length (split_ws l)"
    and "addr = strip_prefix_length (split_ws l ! 1)"
  shows "ip_of_output device output =
           (if addr = [] then Inl (ValueError (''ip not found for '' @ device)) else Inr addr)"
proof -
  have "nth_py (split_ws l) 1 = Inr (split_ws l ! 1)"
    using assms(2) by (simp add: nth_py_def)
  then have "ip_loop (split_on (CHR 0x0A) output) = Inr (Some addr)"
    using ip_loop_find [of "split_on (CHR 0x0A) output" l] assms(1,3)
    by (simp add: first_inet_line_def)
  then show ?thesis by (simp add: ip_of_output_def)
qed

theorem ip_first_match_witness:
  "first_inet_line addr_example
     = Some ''inet 192.168.1.5/24 brd 192.168.1.255 scope global wlan0''
   \<and> 1 < length (split_ws ''inet 192.168.1.5/24 brd 192.168.1.255 scope global wlan0'')
   \<and> ip_of_output ''wlan0'' addr_example = Inr ''192.168.1.5''"
proof -
  have a: "first_inet_line addr_example
             = Some ''inet 192.168.1.5/24 brd 192.168.1.255 scope global wlan0''"
    by (simp add: first_inet_line_def addr_example_def strip_def is_space_def startswith_def)
  have ws: "split_ws ''inet 192.168.1.5/24 brd 192.168.1.255 scope global wlan0''
              = [''inet'', ''192.168.1.5/24'', ''brd'', ''192.168.1.255'', ''scope'',
                 ''global'', ''wlan0'']"
    by (simp add: split_ws.simps is_space_def)
  have b: "1 < length (split_ws ''inet 192.168.1.5/24 brd 192.168.1.255 scope global wlan0'')"
    by (simp add: ws)
  show ?thesis
    using a b ip_first_match [OF a b refl, of "''wlan0''"]
    by (simp add: ws strip_prefix_length_def)
qed

text \<open>
  C2, as the specification has it, fails on the output \<^verbatim>\<open>inet /24\<close>: its only line starts
  with \<^verbatim>\<open>inet\<close>, the second field is \<^verbatim>\<open>/24\<close>, the field without its suffix is the empty
  string, and the routine does not return it but raises.
\<close>

theorem ip_empty_address_counterexample:
  "first_inet_line ''inet /24'' = Some ''inet /24''
   \<and> split_ws ''inet /24'' = [''inet'', ''/24'']
   \<and> strip_prefix_length ''/24'' = []
   \<and> ip_of_output ''eth0'' ''inet /24'' = Inl (ValueError ''ip not found for eth0'')
   \<and> ip_of_output ''eth0'' ''inet /24'' \<noteq> Inr (strip_prefix_length ''/24'')"
  by (simp add: first_inet_line_def strip_prefix_length_def ip_of_output_def strip_def
        split_ws.simps is_space_def startswith_def nth_py_def)

text \<open>
  C4. A request of a user who is not admin is answered with a redirect to \<^verbatim>\<open>login\<close>, and
  its log is empty: no command was run and nothing was encoded.
\<close>

theorem index_unauthorized:
  "\<not> is_admin w \<Longrightarrow> index w = (Inr (Redirect ''login''), [])"
  by (simp add: index_def)

theorem index_unauthorized_witness:
  "\<not> is_admin (example_world False (Exited 0 (''MyNet'' @ [CHR 0x0A])) (Exited 0 ''secret''))
   \<and> index (example_world False (Exited 0 (''MyNet'' @ [CHR 0x0A])) (Exited 0 ''secret''))
       = (Inr (Redirect ''login''), [])"
proof -
  have a: "\<not> is_admin (example_world False (Exited 0 (''MyNet'' @ [CHR 0x0A])) (Exited 0 ''secret''))"
    by (simp add: example_world_def)
  show ?thesis using a index_unauthorized [OF a] by simp
qed

text \<open>
  C5. In an admin request whose network probe and QR encodings succeed, neither failure
  fails the request. A non-zero exit of the Wi-Fi status command leaves \<^verbatim>\<open>ssid\<close> at
  \<^verbatim>\<open>None\<close> and \<^verbatim>\<open>wifi_active\<close> at false, and the page is rendered with \<^verbatim>\<open>ssid\<close> and
  \<^verbatim>\<open>password\<close> set to \<^verbatim>\<open>None\<close>. A non-zero exit of the password helper leaves
  \<^verbatim>\<open>password\<close> at \<^verbatim>\<open>None\<close>, and the page is rendered with the SSID and with
  \<^verbatim>\<open>password\<close> set to \<^verbatim>\<open>None\<close>.
\<close>

theorem soft_failures_absorbed:
  assumes "is_admin w"
    and "run w [''ip'', ''route'', ''show'', ''default''] = Exited 0 ro"
    and "default_device_of_output ro = Inr dev"
    and "run w [''ip'', ''-4'', ''a'', ''show'', ''dev'', dev] = Exited 0 ao"
    and "ip_of_output dev ao = Inr ip"
    and "qr_tag w (''http://'' @ ip @ ''/'') = Inr uq"
  shows "(run w [''/sbin/iwgetid'', ''--raw''] = Exited rc out \<and> rc \<noteq> 0
            \<and> qr_tag w ''WIFI:S:None;T:WPA;P:None;;'' = Inr wq \<longrightarrow>
          wifi_status w [] = (Inr (None, False), [Exec [''/sbin/iwgetid'', ''--raw'']])
          \<and> (\<exists>ctx log. index w = (Inr (Render ''network_info.html'' ctx), log)
                \<and> ctx ''ssid'' = Some PyNone \<and> ctx ''password'' = Some PyNone))
       \<and> (run w [''/sbin/iwgetid'', ''--raw''] = Exited 0 out
            \<and> run w [''sudo'', ''/usr/local/sbin/raveberry/password_for_ssid'', butlast out]
                 = Exited prc pout \<and> prc \<noteq> 0
            \<and> qr_tag w (''WIFI:S:'' @ butlast out @ '';T:WPA;P:None;;'') = Inr wq \<longrightarrow>
          wifi_password w (Some (butlast out)) True log0
            = (Inr None,
               log0 @ [Exec [''sudo'', ''/usr/local/sbin/raveberry/password_for_ssid'',
                             butlast out]])
          \<and> (\<exists>ctx log. index w = (Inr (Render ''network_info.html'' ctx), log)
                \<and> ctx ''ssid'' = Some (PyStr (butlast out))
                \<and> ctx ''password'' = Some PyNone))"
proof (intro conjI impI)
  assume a: "run w [''/sbin/iwgetid'', ''--raw''] = Exited rc out \<and> rc \<noteq> 0
               \<and> qr_tag w ''WIFI:S:None;T:WPA;P:None;;'' = Inr wq"
  show "wifi_status w [] = (Inr (None, False), [Exec [''/sbin/iwgetid'', ''--raw'']])"
    using a wifi_status_exited [of w rc out "[]"] by simp
  have wq: "qr_tag w (''WIFI:S:'' @ fmt None @ '';T:WPA;P:'' @ fmt None @ '';;'') = Inr wq"
    using a by (simp add: fmt_def)
  show "\<exists>ctx log. index w = (Inr (Render ''network_info.html'' ctx), log)
          \<and> ctx ''ssid'' = Some PyNone \<and> ctx ''password'' = Some PyNone"
    using a index_probes(1) [OF assms(1) _ assms(2-5), of rc out]
    by (simp add: build_page_ok [OF wq assms(6)])
next
  assume a: "run w [''/sbin/iwgetid'', ''--raw''] = Exited 0 out
               \<and> run w [''sudo'', ''/usr/local/sbin/raveberry/password_for_ssid'', butlast out]
                    = Exited prc pout \<and> prc \<noteq> 0
               \<and> qr_tag w (''WIFI:S:'' @ butlast out @ '';T:WPA;P:None;;'') = Inr wq"
  show "wifi_password w (Some (butlast out)) True log0
          = (Inr None,
             log0 @ [Exec [''sudo'', ''/usr/local/sbin/raveberry/password_for_ssid'',
                           butlast out]])"
    using a wifi_password_exited [of w "butlast out" prc pout log0] by simp
  have wq: "qr_tag w (''WIFI:S:'' @ fmt (Some (butlast out)) @ '';T:WPA;P:'' @ fmt None @ '';;'')
              = Inr wq"
    using a by (simp add: fmt_def)
  show "\<exists>ctx log. index w = (Inr (Render ''network_info.html'' ctx), log)
          \<and> ctx ''ssid'' = Some (PyStr (butlast out)) \<and> ctx ''password'' = Some PyNone"
    using a index_probes(2) [OF assms(1) _ assms(2-5), of 0 out prc pout]
    by (simp add: build_page_ok [OF wq assms(6)] py_of_def)
qed


theorem soft_failures_absorbed_witness:
  "context_value (index (example_world True (Exited 255 []) (Exited 1 []))) ''ssid''
     = Some PyNone
   \<and> context_value (index (example_world True (Exited 255 []) (Exited 1 []))) ''password''
     = Some PyNone
   \<and> context_value
         (index (example_world True (Exited 0 (''MyNet'' @ [CHR 0x0A])) (Exited 1 []))) ''ssid''
     = Some (PyStr ''MyNet'')
   \<and> context_value
         (index (example_world True (Exited 0 (''MyNet'' @ [CHR 0x0A])) (Exited 1 [])))
         ''password''
     = Some PyNone"
proof -
  let ?A = "example_world True (Exited 255 []) (Exited 1 [])"
  let ?B = "example_world True (Exited 0 (''MyNet'' @ [CHR 0x0A])) (Exited 1 [])"
  have uqA: "qr_tag ?A (''http://'' @ ''192.168.1.5'' @ ''/'') = Inr ''<path d=http://192.168.1.5//>''"
    by (simp add: example_qr_tag)
  have uqB: "qr_tag ?B (''http://'' @ ''192.168.1.5'' @ ''/'') = Inr ''<path d=http://192.168.1.5//>''"
    by (simp add: example_qr_tag)
  note A = soft_failures_absorbed [where w = ?A and rc = 255 and out = "[]"
      and wq = "''<path d=WIFI:S:None;T:WPA;P:None;;/>''",
      OF example_admin example_run_route example_route example_run_addr example_addr uqA]
  note B = soft_failures_absorbed [where w = ?B and out = "''MyNet'' @ [CHR 0x0A]"
      and prc = 1 and pout = "[]" and wq = "''<path d=WIFI:S:MyNet;T:WPA;P:None;;/>''",
      OF example_admin example_run_route example_route example_run_addr example_addr uqB]
  have "run ?A [''/sbin/iwgetid'', ''--raw''] = Exited 255 [] \<and> (255::int) \<noteq> 0
          \<and> qr_tag ?A ''WIFI:S:None;T:WPA;P:None;;'' = Inr ''<path d=WIFI:S:None;T:WPA;P:None;;/>''"
    by (simp add: example_run_iwgetid example_qr_tag)
  with A obtain ctxA logA where
    "index ?A = (Inr (Render ''network_info.html'' ctxA), logA)"
    "ctxA ''ssid'' = Some PyNone" "ctxA ''password'' = Some PyNone"
    by blast
  then have a: "context_value (index ?A) ''ssid'' = Some PyNone
                  \<and> context_value (index ?A) ''password'' = Some PyNone"
    by (simp add: context_value_def)
  have "run ?B [''/sbin/iwgetid'', ''--raw''] = Exited 0 (''MyNet'' @ [CHR 0x0A])
          \<and> run ?B [''sudo'', ''/usr/local/sbin/raveberry/password_for_ssid'',
                      butlast (''MyNet'' @ [CHR 0x0A])] = Exited 1 []
          \<and> (1::int) \<noteq> 0
          \<and> qr_tag ?B (''WIFI:S:'' @ butlast (''MyNet'' @ [CHR 0x0A]) @ '';T:WPA;P:None;;'')
               = Inr ''<path d=WIFI:S:MyNet;T:WPA;P:None;;/>''"
    by (simp add: example_run_iwgetid example_run_helper example_qr_tag)
  with B obtain ctxB logB where
    "index ?B = (Inr (Render ''network_info.html'' ctxB), logB)"
    "ctxB ''ssid'' = Some (PyStr (butlast (''MyNet'' @ [CHR 0x0A])))"
    "ctxB ''password'' = Some PyNone"
    by blast
  then have b: "context_value (index ?B) ''ssid'' = Some (PyStr ''MyNet'')
                  \<and> context_value (index ?B) ''password'' = Some PyNone"
    by (simp add: context_value_def)
  from a b show ?thesis by simp
qed

text \<open>
  C6, as the code has it. In an admin request whose Wi-Fi status command exits non-zero and
  whose network probe and QR encodings succeed, the page is rendered with \<^verbatim>\<open>ssid\<close>,
  \<^verbatim>\<open>password\<close> and \<^verbatim>\<open>wifi_qr\<close> set to \<^verbatim>\<open>None\<close>. The QR library is called all the same
  on the Wi-Fi payload, which is then \<^verbatim>\<open>WIFI:S:None;T:WPA;P:None;;\<close>, before it is called on
  the URL; the result of the first call is dropped.
\<close>

theorem wifi_inactive_page:
  assumes "is_admin w"
    and "run w [''/sbin/iwgetid'', ''--raw''] = Exited rc out" and "rc \<noteq> 0"
    and "run w [''ip'', ''route'', ''show'', ''default''] = Exited 0 ro"
    and "default_device_of_output ro = Inr dev"
    and "run w [''ip'', ''-4'', ''a'', ''show'', ''dev'', dev] = Exited 0 ao"
    and "ip_of_output dev ao = Inr ip"
    and "qr_tag w ''WIFI:S:None;T:WPA;P:None;;'' = Inr wq"
    and "qr_tag w (''http://'' @ ip @ ''/'') = Inr uq"
  shows "\<exists>ctx. index w =
           (Inr (Render ''network_info.html'' ctx),
            [Exec [''/sbin/iwgetid'', ''--raw''], Exec [''ip'', ''route'', ''show'', ''default''],
             Exec [''ip'', ''-4'', ''a'', ''show'', ''dev'', dev],
             QREncode ''WIFI:S:None;T:WPA;P:None;;'', QREncode (''http://'' @ ip @ ''/'')])
         \<and> ctx ''ssid'' = Some PyNone \<and> ctx ''password'' = Some PyNone
         \<and> ctx ''wifi_qr'' = Some PyNone"
proof -
  have wq: "qr_tag w (''WIFI:S:'' @ fmt None @ '';T:WPA;P:'' @ fmt None @ '';;'') = Inr wq"
    using assms(8) by (simp add: fmt_def)
  show ?thesis
    using index_probes(1) [OF assms(1,2) assms(4-7) assms(3)]
    by (simp add: build_page_ok [OF wq assms(9)] fmt_def)
qed

theorem wifi_inactive_page_witness:
  "context_value (index (example_world True (Exited 255 []) (Exited 1 []))) ''ssid''
     = Some PyNone
   \<and> context_value (index (example_world True (Exited 255 []) (Exited 1 []))) ''password''
     = Some PyNone
   \<and> context_value (index (example_world True (Exited 255 []) (Exited 1 []))) ''wifi_qr''
     = Some PyNone
   \<and> snd (index (example_world True (Exited 255 []) (Exited 1 []))) =
      [Exec [''/sbin/iwgetid'', ''--raw''], Exec [''ip'', ''route'', ''show'', ''default''],
       Exec [''ip'', ''-4'', ''a'', ''show'', ''dev'', ''wlan0''],
       QREncode ''WIFI:S:None;T:WPA;P:None;;'', QREncode ''http://192.168.1.5/'']"
proof -
  let ?A = "example_world True (Exited 255 []) (Exited 1 [])"
  have rc: "(255::int) \<noteq> 0" by simp
  have wq: "qr_tag ?A ''WIFI:S:None;T:WPA;P:None;;'' = Inr ''<path d=WIFI:S:None;T:WPA;P:None;;/>''"
    by (simp add: example_qr_tag)
  have uq: "qr_tag ?A (''http://'' @ ''192.168.1.5'' @ ''/'') = Inr ''<path d=http://192.168.1.5//>''"
    by (simp add: example_qr_tag)
  from wifi_inactive_page [OF example_admin example_run_iwgetid rc example_run_route
      example_route example_run_addr example_addr wq uq]
  obtain ctx where "index ?A =
        (Inr (Render ''network_info.html'' ctx),
         [Exec [''/sbin/iwgetid'', ''--raw''], Exec [''ip'', ''route'', ''show'', ''default''],
          Exec [''ip'', ''-4'', ''a'', ''show'', ''dev'', ''wlan0''],
          QREncode ''WIFI:S:None;T:WPA;P:None;;'', QREncode (''http://'' @ ''192.168.1.5'' @ ''/'')])"
    and "ctx ''ssid'' = Some PyNone" and "ctx ''password'' = Some PyNone"
    and "ctx ''wifi_qr'' = Some PyNone"
    by blast
  then show ?thesis by (simp add: context_value_def)
qed

text \<open>
  C6, as the specification has it, fails on the example host when the Wi-Fi status command
  exits with 255: the log of the request holds the encoding of the Wi-Fi payload.
\<close>

theorem wifi_qr_encoded_when_inactive_counterexample:
  "run (example_world True (Exited 255 []) (Exited 1 [])) [''/sbin/iwgetid'', ''--raw'']
     = Exited 255 []
   \<and> QREncode ''WIFI:S:None;T:WPA;P:None;;''
       \<in> set (snd (index (example_world True (Exited 255 []) (Exited 1 []))))"
proof -
  let ?A = "example_world True (Exited 255 []) (Exited 1 [])"
  have rc: "(255::int) \<noteq> 0" by simp
  have "index ?A = build_page ?A (base_context ?A) None None False ''192.168.1.5''
          [Exec [''/sbin/iwgetid'', ''--raw''], Exec [''ip'', ''route'', ''show'', ''default''],
           Exec [''ip'', ''-4'', ''a'', ''show'', ''dev'', ''wlan0'']]"
    using index_probes(1) [OF example_admin example_run_iwgetid example_run_route
      example_route example_run_addr example_addr rc] .
  then show ?thesis
    by (simp add: build_page_log example_run_iwgetid fmt_def)
qed

text \<open>
  C7, as the code has it. In an admin request the Wi-Fi status command is run first. When
  it exits, the route command is run next, and when that yields a default device, the
  address command for the device is run third: the Wi-Fi status probe comes before the
  network probe and never after it.
\<close>

theorem wifi_status_probe_first:
  assumes "is_admin w"
    and "run w [''/sbin/iwgetid'', ''--raw''] = Exited rc out"
    and "run w [''ip'', ''route'', ''show'', ''default''] = Exited 0 ro"
    and "default_device_of_output ro = Inr dev"
  shows "(\<exists>rest. snd (index w) =
            Exec [''/sbin/iwgetid'', ''--raw''] # Exec [''ip'', ''route'', ''show'', ''default'']
              # Exec [''ip'', ''-4'', ''a'', ''show'', ''dev'', dev] # rest)
         \<and> occurs_before (Exec [''/sbin/iwgetid'', ''--raw''])
               (Exec [''ip'', ''route'', ''show'', ''default'']) (snd (index w))
         \<and> \<not> occurs_before (Exec [''ip'', ''route'', ''show'', ''default''])
               (Exec [''/sbin/iwgetid'', ''--raw'']) (snd (index w))"
proof -
  from index_log [OF assms] obtain es where
    log: "snd (index w) =
            Exec [''/sbin/iwgetid'', ''--raw''] # Exec [''ip'', ''route'', ''show'', ''default'']
              # Exec [''ip'', ''-4'', ''a'', ''show'', ''dev'', dev] # es"
    and es: "Exec [''/sbin/iwgetid'', ''--raw''] \<notin> set es"
    by blast
  have "\<not> occurs_before (Exec [''ip'', ''route'', ''show'', ''default''])
          (Exec [''/sbin/iwgetid'', ''--raw'']) es"
    using es by (rule occurs_before_absent)
  then show ?thesis using log es by simp
qed

theorem wifi_status_probe_first_witness:
  "snd (index (example_world True (Exited 255 []) (Exited 1 []))) ! 0
     = Exec [''/sbin/iwgetid'', ''--raw'']
   \<and> snd (index (example_world True (Exited 255 []) (Exited 1 []))) ! 1
     = Exec [''ip'', ''route'', ''show'', ''default'']
   \<and> snd (index (example_world True (Exited 255 []) (Exited 1 []))) ! 2
     = Exec [''ip'', ''-4'', ''a'', ''show'', ''dev'', ''wlan0'']
   \<and> occurs_before (Exec [''/sbin/iwgetid'', ''--raw''])
         (Exec [''ip'', ''route'', ''show'', ''default''])
         (snd (index (example_world True (Exited 255 []) (Exited 1 []))))"
proof -
  let ?A = "example_world True (Exited 255 []) (Exited 1 [])"
  have adm: "is_admin ?A" by (rule example_admin)
  have iw: "run ?A [''/sbin/iwgetid'', ''--raw''] = Exited 255 []"
    by (rule example_run_iwgetid)
  have route: "run ?A [''ip'', ''route'', ''show'', ''default''] = Exited 0 route_example"
    by (rule example_run_route)
  from wifi_status_probe_first [OF adm iw route example_route]
  show ?thesis by auto
qed

text \<open>
  C7, as the specification has it, fails on the example host with Wi-Fi active: both
  commands are in the log of the request, and the route command does not occur before the
  Wi-Fi status command.
\<close>

theorem network_probe_not_first_counterexample:
  "Exec [''ip'', ''route'', ''show'', ''default'']
     \<in> set (snd (index (example_world True (Exited 0 (''MyNet'' @ [CHR 0x0A]))
                           (Exited 0 (''secret'' @ [CHR 0x0A])))))
   \<and> Exec [''/sbin/iwgetid'', ''--raw'']
     \<in> set (snd (index (example_world True (Exited 0 (''MyNet'' @ [CHR 0x0A]))
                           (Exited 0 (''secret'' @ [CHR 0x0A])))))
   \<and> \<not> occurs_before (Exec [''ip'', ''route'', ''show'', ''default''])
         (Exec [''/sbin/iwgetid'', ''--raw''])
         (snd (index (example_world True (Exited 0 (''MyNet'' @ [CHR 0x0A]))
                        (Exited 0 (''secret'' @ [CHR 0x0A])))))"
proof -
  let ?B = "example_world True (Exited 0 (''MyNet'' @ [CHR 0x0A])) (Exited 0 (''secret'' @ [CHR 0x0A]))"
  have "index ?B = build_page ?B (base_context ?B) (Some (butlast (''MyNet'' @ [CHR 0x0A])))
          (if (0::int) = 0 then Some (''secret'' @ [CHR 0x0A]) else None) True ''192.168.1.5''
          [Exec [''/sbin/iwgetid'', ''--raw''], Exec [''ip'', ''route'', ''show'', ''default''],
           Exec [''ip'', ''-4'', ''a'', ''show'', ''dev'', ''wlan0''],
           Exec [''sudo'', ''/usr/local/sbin/raveberry/password_for_ssid'',
                 butlast (''MyNet'' @ [CHR 0x0A])]]"
    using index_probes(2) [OF example_admin example_run_iwgetid example_run_route
      example_route example_run_addr example_addr refl example_run_helper] .
  then show ?thesis
    by (simp add: build_page_log example_qr_tag fmt_def)
qed

text \<open>
  C8, as the code has it. The SSID is the output of the Wi-Fi status command without its
  last character, whatever that character is: in an admin request whose status command
  exits with zero and whose other steps succeed, an output \<open>s\<close> followed by one character
  \<open>c\<close> is rendered as the SSID \<open>s\<close>, and the empty output as the empty SSID.
\<close>

theorem ssid_drops_last_character:
  assumes "is_admin w"
    and "run w [''/sbin/iwgetid'', ''--raw''] = Exited 0 out"
    and "out = s @ [c] \<or> (out = [] \<and> s = [])"
    and "run w [''ip'', ''route'', ''show'', ''default''] = Exited 0 ro"
    and "default_device_of_output ro = Inr dev"
    and "run w [''ip'', ''-4'', ''a'', ''show'', ''dev'', dev] = Exited 0 ao"
    and "ip_of_output dev ao = Inr ip"
    and "run w [''sudo'', ''/usr/local/sbin/raveberry/password_for_ssid'', s] = Exited prc pout"
    and "qr_tag w (''WIFI:S:'' @ s @ '';T:WPA;P:''
                     @ fmt (if prc = 0 then Some pout else None) @ '';;'') = Inr wq"
    and "qr_tag w (''http://'' @ ip @ ''/'') = Inr uq"
  shows "\<exists>ctx log. index w = (Inr (Render ''network_info.html'' ctx), log)
           \<and> ctx ''ssid'' = Some (PyStr s)"
proof -
  have s: "butlast out = s" using assms(3) by auto
  have helper: "run w [''sudo'', ''/usr/local/sbin/raveberry/password_for_ssid'', butlast out]
                  = Exited prc pout"
    using assms(8) s by simp
  have wq: "qr_tag w (''WIFI:S:'' @ fmt (Some s) @ '';T:WPA;P:''
                        @ fmt (if prc = 0 then Some pout else None) @ '';;'') = Inr wq"
    using assms(9) by (simp add: fmt_def)
  note idx = index_probes(2) [OF assms(1,2) assms(4-7) refl helper, unfolded s]
  note page = build_page_ok [OF wq assms(10), of "base_context w" True]
  show ?thesis
    unfolding idx page by (simp add: py_of_def)
qed

theorem ssid_drops_last_character_witness:
  "context_value
     (index (example_world True (Exited 0 (''MyNet'' @ [CHR 0x0A])) (Exited 1 []))) ''ssid''
     = Some (PyStr ''MyNet'')"
proof -
  let ?B = "example_world True (Exited 0 (''MyNet'' @ [CHR 0x0A])) (Exited 1 [])"
  have adm: "is_admin ?B" by (rule example_admin)
  have iw: "run ?B [''/sbin/iwgetid'', ''--raw''] = Exited 0 (''MyNet'' @ [CHR 0x0A])"
    by (rule example_run_iwgetid)
  have out: "''MyNet'' @ [CHR 0x0A] = ''MyNet'' @ [CHR 0x0A]
               \<or> (''MyNet'' @ [CHR 0x0A] = [] \<and> ''MyNet'' = [])"
    by simp
  have route: "run ?B [''ip'', ''route'', ''show'', ''default''] = Exited 0 route_example"
    by (rule example_run_route)
  have addr: "run ?B [''ip'', ''-4'', ''a'', ''show'', ''dev'', ''wlan0''] = Exited 0 addr_example"
    by (rule example_run_addr)
  have helper: "run ?B [''sudo'', ''/usr/local/sbin/raveberry/password_for_ssid'', ''MyNet'']
                  = Exited 1 []"
    by (rule example_run_helper)
  have wq: "qr_tag ?B (''WIFI:S:'' @ ''MyNet'' @ '';T:WPA;P:''
                         @ fmt (if (1::int) = 0 then Some [] else None) @ '';;'')
              = Inr ''<path d=WIFI:S:MyNet;T:WPA;P:None;;/>''"
    by (simp add: example_qr_tag fmt_def)
  have uq: "qr_tag ?B (''http://'' @ ''192.168.1.5'' @ ''/'') = Inr ''<path d=http://192.168.1.5//>''"
    by (simp add: example_qr_tag)
  from ssid_drops_last_character [OF adm iw out route example_route addr example_addr
      helper wq uq]
  obtain ctx log where "index ?B = (Inr (Render ''network_info.html'' ctx), log)"
    and "ctx ''ssid'' = Some (PyStr ''MyNet'')"
    by blast
  then show ?thesis by (simp add: context_value_def)
qed

text \<open>
  C8, as the specification has it, fails on the output \<^verbatim>\<open>MyNet\<close> without a line feed: the
  SSID is \<^verbatim>\<open>MyNe\<close>, in the variable and in the rendered page.
\<close>

theorem ssid_without_newline_counterexample:
  "wifi_status (example_world True (Exited 0 ''MyNet'') (Exited 1 [])) []
     = (Inr (Some ''MyNe'', True), [Exec [''/sbin/iwgetid'', ''--raw'']])
   \<and> context_value (index (example_world True (Exited 0 ''MyNet'') (Exited 1 []))) ''ssid''
     = Some (PyStr ''MyNe'')
   \<and> context_value (index (example_world True (Exited 0 ''MyNet'') (Exited 1 []))) ''ssid''
     \<noteq> Some (PyStr ''MyNet'')"
proof -
  let ?C = "example_world True (Exited 0 ''MyNet'') (Exited 1 [])"
  have iw: "run ?C [''/sbin/iwgetid'', ''--raw''] = Exited 0 ''MyNet''"
    by (rule example_run_iwgetid)
  have a: "wifi_status ?C [] = (Inr (Some ''MyNe'', True), [Exec [''/sbin/iwgetid'', ''--raw'']])"
    using wifi_status_exited [OF iw, of "[]"] by simp
  have wq: "qr_tag ?C (''WIFI:S:'' @ fmt (Some (butlast ''MyNet'')) @ '';T:WPA;P:''
                         @ fmt (if (1::int) = 0 then Some [] else None) @ '';;'')
              = Inr ''<path d=WIFI:S:MyNe;T:WPA;P:None;;/>''"
    by (simp add: example_qr_tag fmt_def)
  have uq: "qr_tag ?C (''http://'' @ ''192.168.1.5'' @ ''/'') = Inr ''<path d=http://192.168.1.5//>''"
    by (simp add: example_qr_tag)
  note idx = index_probes(2) [OF example_admin iw example_run_route
      example_route example_run_addr example_addr refl example_run_helper]
  note page = build_page_ok [OF wq uq, of "base_context ?C" True]
  have "context_value (index ?C) ''ssid'' = Some (PyStr ''MyNe'')"
    unfolding idx page by (simp add: context_value_def py_of_def)
  with a show ?thesis by simp
qed

text \<open>
  C9. In an admin request with Wi-Fi active, a network probe that succeeds and a password
  helper that exits non-zero, the first thing the QR library is asked to encode, right
  behind the four commands, is \<^verbatim>\<open>WIFI:S:\<close>, the SSID and \<^verbatim>\<open>;T:WPA;P:None;;\<close>; the URL
  follows when that encoding succeeds.
\<close>

theorem unresolved_password_payload:
  assumes "is_admin w"
    and "run w [''/sbin/iwgetid'', ''--raw''] = Exited 0 out"
    and "s = butlast out"
    and "run w [''ip'', ''route'', ''show'', ''default''] = Exited 0 ro"
    and "default_device_of_output ro = Inr dev"
    and "run w [''ip'', ''-4'', ''a'', ''show'', ''dev'', dev] = Exited 0 ao"
    and "ip_of_output dev ao = Inr ip"
    and "run w [''sudo'', ''/usr/local/sbin/raveberry/password_for_ssid'', s] = Exited prc pout"
    and "prc \<noteq> 0"
  shows "snd (index w) =
           [Exec [''/sbin/iwgetid'', ''--raw''], Exec [''ip'', ''route'', ''show'', ''default''],
            Exec [''ip'', ''-4'', ''a'', ''show'', ''dev'', dev],
            Exec [''sudo'', ''/usr/local/sbin/raveberry/password_for_ssid'', s],
            QREncode (''WIFI:S:'' @ s @ '';T:WPA;P:None;;'')]
           @ (case qr_tag w (''WIFI:S:'' @ s @ '';T:WPA;P:None;;'') of
                Inl e \<Rightarrow> []
              | Inr wq \<Rightarrow> [QREncode (''http://'' @ ip @ ''/'')])"
proof -
  have helper: "run w [''sudo'', ''/usr/local/sbin/raveberry/password_for_ssid'', butlast out]
                  = Exited prc pout"
    using assms(3,8) by simp
  show ?thesis
    using index_probes(2) [OF assms(1,2) assms(4-7) refl helper] assms(3,9)
    by (simp add: build_page_log fmt_def)
qed

theorem unresolved_password_payload_witness:
  "snd (index (example_world True (Exited 0 (''MyNet'' @ [CHR 0x0A])) (Exited 1 []))) =
     [Exec [''/sbin/iwgetid'', ''--raw''], Exec [''ip'', ''route'', ''show'', ''default''],
      Exec [''ip'', ''-4'', ''a'', ''show'', ''dev'', ''wlan0''],
      Exec [''sudo'', ''/usr/local/sbin/raveberry/password_for_ssid'', ''MyNet''],
      QREncode ''WIFI:S:MyNet;T:WPA;P:None;;'', QREncode ''http://192.168.1.5/'']"
proof -
  let ?B = "example_world True (Exited 0 (''MyNet'' @ [CHR 0x0A])) (Exited 1 [])"
  have adm: "is_admin ?B" by (rule example_admin)
  have iw: "run ?B [''/sbin/iwgetid'', ''--raw''] = Exited 0 (''MyNet'' @ [CHR 0x0A])"
    by (rule example_run_iwgetid)
  have s: "''MyNet'' = butlast (''MyNet'' @ [CHR 0x0A])" by simp
  have route: "run ?B [''ip'', ''route'', ''show'', ''default''] = Exited 0 route_example"
    by (rule example_run_route)
  have addr: "run ?B [''ip'', ''-4'', ''a'', ''show'', ''dev'', ''wlan0''] = Exited 0 addr_example"
    by (rule example_run_addr)
  have helper: "run ?B [''sudo'', ''/usr/local/sbin/raveberry/password_for_ssid'', ''MyNet'']
                  = Exited 1 []"
    by (rule example_run_helper)
  have prc: "(1::int) \<noteq> 0" by simp
  from unresolved_password_payload [OF adm iw s route example_route addr example_addr
      helper prc]
  show ?thesis by (simp add: example_qr_tag)
qed

text \<open>
  C10. In an admin request with Wi-Fi active, a network probe that succeeds and a password
  helper that exits with zero, the output of the helper is used as it is, while the output
  of the status command loses its last character: the page is rendered with the whole
  output as \<^verbatim>\<open>password\<close>, and the QR library is asked to encode the whole output between
  \<^verbatim>\<open>P:\<close> and \<^verbatim>\<open>;;\<close>, a final line feed included.
\<close>

theorem password_verbatim:
  assumes "is_admin w"
    and "run w [''/sbin/iwgetid'', ''--raw''] = Exited 0 out"
    and "run w [''ip'', ''route'', ''show'', ''default''] = Exited 0 ro"
    and "default_device_of_output ro = Inr dev"
    and "run w [''ip'', ''-4'', ''a'', ''show'', ''dev'', dev] = Exited 0 ao"
    and "ip_of_output dev ao = Inr ip"
    and "run w [''sudo'', ''/usr/local/sbin/raveberry/password_for_ssid'', butlast out]
           = Exited 0 pout"
    and "qr_tag w (''WIFI:S:'' @ butlast out @ '';T:WPA;P:'' @ pout @ '';;'') = Inr wq"
    and "qr_tag w (''http://'' @ ip @ ''/'') = Inr uq"
  shows "\<exists>ctx. index w =
           (Inr (Render ''network_info.html'' ctx),
            [Exec [''/sbin/iwgetid'', ''--raw''], Exec [''ip'', ''route'', ''show'', ''default''],
             Exec [''ip'', ''-4'', ''a'', ''show'', ''dev'', dev],
             Exec [''sudo'', ''/usr/local/sbin/raveberry/password_for_ssid'', butlast out],
             QREncode (''WIFI:S:'' @ butlast out @ '';T:WPA;P:'' @ pout @ '';;''),
             QREncode (''http://'' @ ip @ ''/'')])
         \<and> ctx ''ssid'' = Some (PyStr (butlast out))
         \<and> ctx ''password'' = Some (PyStr pout)
         \<and> ctx ''wifi_qr'' = Some (PyStr wq)"
proof -
  have wq: "qr_tag w (''WIFI:S:'' @ fmt (Some (butlast out)) @ '';T:WPA;P:''
                        @ fmt (Some pout) @ '';;'') = Inr wq"
    using assms(8) by (simp add: fmt_def)
  have idx: "index w = build_page w (base_context w) (Some (butlast out)) (Some pout) True ip
      [Exec [''/sbin/iwgetid'', ''--raw''], Exec [''ip'', ''route'', ''show'', ''default''],
       Exec [''ip'', ''-4'', ''a'', ''show'', ''dev'', dev],
       Exec [''sudo'', ''/usr/local/sbin/raveberry/password_for_ssid'', butlast out]]"
    using index_probes(2) [OF assms(1,2) assms(3-6) refl assms(7)] by simp
  note page = build_page_ok [OF wq assms(9), of "base_context w" True]
  show ?thesis
    unfolding idx page by (simp add: py_of_def fmt_def)
qed

theorem password_verbatim_witness:
  "context_value
     (index (example_world True (Exited 0 (''MyNet'' @ [CHR 0x0A]))
               (Exited 0 (''secret'' @ [CHR 0x0A])))) ''password''
     = Some (PyStr (''secret'' @ [CHR 0x0A]))
   \<and> context_value
     (index (example_world True (Exited 0 (''MyNet'' @ [CHR 0x0A]))
               (Exited 0 (''secret'' @ [CHR 0x0A])))) ''ssid''
     = Some (PyStr ''MyNet'')
   \<and> snd (index (example_world True (Exited 0 (''MyNet'' @ [CHR 0x0A]))
                    (Exited 0 (''secret'' @ [CHR 0x0A])))) ! 4
     = QREncode (''WIFI:S:MyNet;T:WPA;P:secret'' @ [CHR 0x0A] @ '';;'')"
proof -
  let ?B = "example_world True (Exited 0 (''MyNet'' @ [CHR 0x0A])) (Exited 0 (''secret'' @ [CHR 0x0A]))"
  have adm: "is_admin ?B" by (rule example_admin)
  have iw: "run ?B [''/sbin/iwgetid'', ''--raw''] = Exited 0 (''MyNet'' @ [CHR 0x0A])"
    by (rule example_run_iwgetid)
  have route: "run ?B [''ip'', ''route'', ''show'', ''default''] = Exited 0 route_example"
    by (rule example_run_route)
  have addr: "run ?B [''ip'', ''-4'', ''a'', ''show'', ''dev'', ''wlan0''] = Exited 0 addr_example"
    by (rule example_run_addr)
  have helper: "run ?B [''sudo'', ''/usr/local/sbin/raveberry/password_for_ssid'',
                        butlast (''MyNet'' @ [CHR 0x0A])] = Exited 0 (''secret'' @ [CHR 0x0A])"
    by (rule example_run_helper)
  have wq: "qr_tag ?B (''WIFI:S:'' @ butlast (''MyNet'' @ [CHR 0x0A]) @ '';T:WPA;P:''
                         @ (''secret'' @ [CHR 0x0A]) @ '';;'')
              = Inr ''<path d=WIFI:S:MyNet;T:WPA;P:secret;;/>''"
    by (simp add: example_qr_tag)
  have uq: "qr_tag ?B (''http://'' @ ''192.168.1.5'' @ ''/'') = Inr ''<path d=http://192.168.1.5//>''"
    by (simp add: example_qr_tag)
  from password_verbatim [OF adm iw route example_route addr example_addr helper wq uq]
  obtain ctx where "index ?B =
        (Inr (Render ''network_info.html'' ctx),
         [Exec [''/sbin/iwgetid'', ''--raw''], Exec [''ip'', ''route'', ''show'', ''default''],
          Exec [''ip'', ''-4'', ''a'', ''show'', ''dev'', ''wlan0''],
          Exec [''sudo'', ''/usr/local/sbin/raveberry/password_for_ssid'',
                butlast (''MyNet'' @ [CHR 0x0A])],
          QREncode (''WIFI:S:'' @ butlast (''MyNet'' @ [CHR 0x0A]) @ '';T:WPA;P:''
                      @ (''secret'' @ [CHR 0x0A]) @ '';;''),
          QREncode (''http://'' @ ''192.168.1.5'' @ ''/'')])"
    and "ctx ''ssid'' = Some (PyStr (butlast (''MyNet'' @ [CHR 0x0A])))"
    and "ctx ''password'' = Some (PyStr (''secret'' @ [CHR 0x0A]))"
    by blast
  then show ?thesis by (simp add: context_value_def)
qed

end
